theory Spec2Isabelle
  imports Main
begin

section \<open>The chat client of DevOps Pal (frontend/src/App.jsx)\<close>

text \<open>
  The component \<open>App\<close> holds four pieces of React state (\<open>sessionId\<close>, \<open>messages\<close>,
  \<open>input\<close>, \<open>loading\<close>) and two asynchronous handlers, \<open>startSession\<close> and
  \<open>sendMessage\<close>. Each handler runs synchronously up to its \<open>fetch\<close>, is suspended
  there, and is resumed when the call settles. The model has one function for the
  synchronous part of each handler and one for the part that runs on settlement; the
  state they pass along also records what the handlers do to the outside: the requests
  given to \<open>fetch\<close>, the suspended calls and the lines written by \<open>console.error\<close>.
\<close>

subsection \<open>JavaScript values\<close>

text \<open>
  The values the program stores and tests: what \<open>JSON.parse\<close> returns, \<open>null\<close> (the
  initial \<open>sessionId\<close>) and \<open>undefined\<close> (reading a property that is not there).
  Numbers are kept as integers: the program only tests them for being zero. Strings are
  sequences of code units below 256. \<open>JObj kvs\<close> lists the properties of an object,
  every name once.
\<close>

datatype jsval =
    JUndefined
  | JNull
  | JBool bool
  | JNum int
  | JStr string
  | JArr "jsval list"
  | JObj "(string \<times> jsval) list"

text \<open>The conversion to boolean made by \<open>!v\<close> and by \<open>if (v)\<close>.\<close>

fun truthy :: "jsval \<Rightarrow> bool" where
  "truthy JUndefined = False"
| "truthy JNull = False"
| "truthy (JBool b) = b"
| "truthy (JNum n) = (n \<noteq> 0)"
| "truthy (JStr s) = (s \<noteq> [])"
| "truthy (JArr vs) = True"
| "truthy (JObj kvs) = True"

text \<open>What the handlers can throw or be rejected with.\<close>

datatype error =
    NetworkError   \<comment> \<open>the promise of \<open>fetch\<close> is rejected\<close>
  | NotOk          \<comment> \<open>\<open>new Error('Network response was not ok')\<close>\<close>
  | SyntaxError    \<comment> \<open>the promise of \<open>res.json()\<close> is rejected\<close>
  | TypeError      \<comment> \<open>a property of \<open>null\<close> or \<open>undefined\<close> is read\<close>

text \<open>
  The property read \<open>data.k\<close>, for the two names the program reads (\<open>session_id\<close> and
  \<open>response\<close>), which no primitive value and no array has: reading them from anything
  but an object that has them gives \<open>undefined\<close>, and from \<open>null\<close> or \<open>undefined\<close>
  throws.
\<close>

fun get_prop :: "jsval \<Rightarrow> string \<Rightarrow> error + jsval" where
  "get_prop JUndefined k = Inl TypeError"
| "get_prop JNull k = Inl TypeError"
| "get_prop (JObj kvs) k = Inr (case map_of kvs k of None \<Rightarrow> JUndefined | Some v \<Rightarrow> v)"
| "get_prop v k = Inr JUndefined"

text \<open>
  \<open>String.prototype.trim\<close> removes white space and line terminators from both ends;
  below 256 these are TAB, LF, VT, FF, CR, SP and NBSP.
\<close>

definition isWhiteSpace :: "char \<Rightarrow> bool" where
  "isWhiteSpace c =
     (c \<in> set [CHR 0x09, CHR 0x0A, CHR 0x0B, CHR 0x0C, CHR 0x0D, CHR 0x20, CHR 0xA0])"

definition trim :: "string \<Rightarrow> string" where
  "trim s = rev (dropWhile isWhiteSpace (rev (dropWhile isWhiteSpace s)))"

subsection \<open>State\<close>

record message =
  role :: string
  content :: jsval

record request =
  url :: string
  http_method :: string
  headers :: "(string \<times> string) list"
  credentials :: string
  body :: "jsval option"   \<comment> \<open>the object given to \<open>JSON.stringify\<close>, if any\<close>

text \<open>An asynchronous handler suspended at its \<open>fetch\<close>.\<close>

datatype call = StartCall | ChatCall

record state =
  sessionId :: jsval
  messages :: "message list"
  input :: string
  loading :: bool
  fetched :: "request list"             \<comment> \<open>the calls of \<open>fetch\<close> made so far\<close>
  pending :: "call list"                \<comment> \<open>the handlers awaiting settlement\<close>
  console :: "(string \<times> error) list"    \<comment> \<open>the lines of \<open>console.error\<close>\<close>

text \<open>The state of the first render: the arguments of the four \<open>useState\<close>.\<close>

definition init :: state where
  "init = \<lparr>sessionId = JNull, messages = [], input = [], loading = False,
           fetched = [], pending = [], console = []\<rparr>"

definition API_URL :: string where
  "API_URL = ''http://localhost:5000/api''"

subsection \<open>The backend's answer\<close>

text \<open>
  A call of \<open>fetch\<close> either is rejected or resolves with a response, of which the
  program reads \<open>ok\<close> (true for a status from 200 to 299) and \<open>json()\<close>; \<open>payload\<close>
  is the value the body parses to, \<open>None\<close> when the body is not JSON. Nothing happens
  between \<open>await fetch\<close> and \<open>await res.json()\<close> but the test of \<open>res.ok\<close>, so the two
  suspensions of a handler are one settlement here.
\<close>

datatype response = Response (status: nat) (payload: "jsval option")

datatype fetch_result = NetworkFailure | Settled response

definition ok :: "response \<Rightarrow> bool" where
  "ok res = (200 \<le> status res \<and> status res \<le> 299)"

definition json :: "response \<Rightarrow> error + jsval" where
  "json res = (case payload res of None \<Rightarrow> Inl SyntaxError | Some v \<Rightarrow> Inr v)"

subsection \<open>startSession\<close>

text \<open>Up to \<open>await fetch\<close>: \<open>setLoading(true)\<close> and the request.\<close>

definition startSession :: "state \<Rightarrow> state" where
  "startSession s =
     s\<lparr>loading := True,
       fetched := fetched s @
         [\<lparr>url = API_URL @ ''/start_session'', http_method = ''POST'', headers = [],
           credentials = ''include'', body = None\<rparr>],
       pending := pending s @ [StartCall]\<rparr>"

text \<open>
  The rest of the \<open>try\<close> block, up to the two setters: the value of
  \<open>data.session_id\<close>, or what is thrown. \<open>res.ok\<close> is not read.
\<close>

definition startSession_try :: "fetch_result \<Rightarrow> error + jsval" where
  "startSession_try r =
     (case r of
        NetworkFailure \<Rightarrow> Inl NetworkError
      | Settled res \<Rightarrow>
          (case json res of
             Inl e \<Rightarrow> Inl e
           | Inr data \<Rightarrow> get_prop data ''session_id''))"

text \<open>On settlement: the setters or the \<open>catch\<close>, then the \<open>finally\<close>.\<close>

definition startSession_resume :: "fetch_result \<Rightarrow> state \<Rightarrow> state" where
  "startSession_resume r s =
     (let s1 = (case startSession_try r of
                  Inr sid \<Rightarrow> s\<lparr>sessionId := sid, messages := []\<rparr>
                | Inl e \<Rightarrow> s\<lparr>console := console s @ [(''Error starting session:'', e)]\<rparr>)
      in s1\<lparr>loading := False\<rparr>)"

subsection \<open>sendMessage\<close>

definition fallback :: string where
  "fallback = ''Sorry, I encountered an error. Please try again.''"

text \<open>
  Up to \<open>await fetch\<close>: the test of the precondition, the user's message, the flag,
  the input field and the request. (\<open>e.preventDefault()\<close> touches no state.)
\<close>

definition sendMessage :: "state \<Rightarrow> state" where
  "sendMessage s =
     (if trim (input s) = [] \<or> \<not> truthy (sessionId s) then s
      else
        let userMsg = \<lparr>role = ''user'', content = JStr (input s)\<rparr> in
        s\<lparr>messages := messages s @ [userMsg],
          loading := True,
          input := [],
          fetched := fetched s @
            [\<lparr>url = API_URL @ ''/chat'', http_method = ''POST'',
              headers = [(''Content-Type'', ''application/json'')],
              credentials = ''include'',
              body = Some (JObj [(''session_id'', sessionId s),
                                 (''message'', content userMsg)])\<rparr>],
          pending := pending s @ [ChatCall]\<rparr>)"

text \<open>
  The rest of the \<open>try\<close> block: the assistant's message to append, if any, or what is
  thrown.
\<close>

definition sendMessage_try :: "fetch_result \<Rightarrow> error + message option" where
  "sendMessage_try r =
     (case r of
        NetworkFailure \<Rightarrow> Inl NetworkError
      | Settled res \<Rightarrow>
          if \<not> ok res then Inl NotOk
          else
            (case json res of
               Inl e \<Rightarrow> Inl e
             | Inr data \<Rightarrow>
                 (case get_prop data ''response'' of
                    Inl e \<Rightarrow> Inl e
                  | Inr reply \<Rightarrow>
                      Inr (if truthy reply
                           then Some \<lparr>role = ''assistant'', content = reply\<rparr>
                           else None))))"

text \<open>On settlement: the append or the \<open>catch\<close>, then the \<open>finally\<close>.\<close>

definition sendMessage_resume :: "fetch_result \<Rightarrow> state \<Rightarrow> state" where
  "sendMessage_resume r s =
     (let s1 = (case sendMessage_try r of
                  Inr None \<Rightarrow> s
                | Inr (Some m) \<Rightarrow> s\<lparr>messages := messages s @ [m]\<rparr>
                | Inl e \<Rightarrow>
                    s\<lparr>console := console s @ [(''Error sending message:'', e)],
                      messages := messages s @
                        [\<lparr>role = ''assistant'', content = JStr fallback\<rparr>]\<rparr>)
      in s1\<lparr>loading := False\<rparr>)"

subsection \<open>The rendered controls\<close>

text \<open>
  What can happen to the component: a click on one of the two start buttons, a change
  of the text field, the Enter key in the text field, a click on the send button, and
  the settlement of the \<open>i\<close>-th suspended call. \<open>enabled\<close> is the \<open>disabled\<close>
  attribute of each control and the condition under which it is rendered (the form only
  when \<open>sessionId\<close> is truthy); a handler runs in the state of the latest render.
\<close>

datatype event =
    ClickStart
  | Change string
  | KeyEnter
  | ClickSend
  | Settle nat fetch_result

fun enabled :: "event \<Rightarrow> state \<Rightarrow> bool" where
  "enabled ClickStart s = (\<not> loading s)"
| "enabled (Change v) s = (truthy (sessionId s) \<and> \<not> loading s)"
| "enabled KeyEnter s = (truthy (sessionId s) \<and> \<not> loading s)"
| "enabled ClickSend s = (truthy (sessionId s) \<and> \<not> (loading s \<or> trim (input s) = []))"
| "enabled (Settle i r) s = (i < length (pending s))"

fun resume :: "call \<Rightarrow> fetch_result \<Rightarrow> state \<Rightarrow> state" where
  "resume StartCall r s = startSession_resume r s"
| "resume ChatCall r s = sendMessage_resume r s"

fun handler :: "event \<Rightarrow> state \<Rightarrow> state" where
  "handler ClickStart s = startSession s"
| "handler (Change v) s = s\<lparr>input := v\<rparr>"
| "handler KeyEnter s = sendMessage s"
| "handler ClickSend s = sendMessage s"
| "handler (Settle i r) s =
     resume (pending s ! i) r (s\<lparr>pending := take i (pending s) @ drop (Suc i) (pending s)\<rparr>)"

definition fire :: "event \<Rightarrow> state \<Rightarrow> state" where
  "fire ev s = (if enabled ev s then handler ev s else s)"

definition run :: "event list \<Rightarrow> state \<Rightarrow> state" where
  "run evs s = fold fire evs s"

section \<open>Properties\<close>

subsection \<open>Facts about the two handlers\<close>

lemma sendMessage_sessionId: "sessionId (sendMessage s) = sessionId s"
  by (simp add: sendMessage_def Let_def)

lemma sendMessage_resume_sessionId: "sessionId (sendMessage_resume r s) = sessionId s"
  by (simp add: sendMessage_resume_def Let_def split: sum.split option.split)

lemma sendMessage_valid:
  "trim (input s) \<noteq> [] \<Longrightarrow> truthy (sessionId s) \<Longrightarrow>
   sendMessage s =
     s\<lparr>messages := messages s @ [\<lparr>role = ''user'', content = JStr (input s)\<rparr>],
       loading := True,
       input := [],
       fetched := fetched s @
         [\<lparr>url = API_URL @ ''/chat'', http_method = ''POST'',
           headers = [(''Content-Type'', ''application/json'')],
           credentials = ''include'',
           body = Some (JObj [(''session_id'', sessionId s), (''message'', JStr (input s))])\<rparr>],
       pending := pending s @ [ChatCall]\<rparr>"
  by (simp add: sendMessage_def Let_def)

lemma sendMessage_resume_reply:
  "sendMessage_try r = Inr (Some m) \<Longrightarrow>
   sendMessage_resume r s = s\<lparr>messages := messages s @ [m], loading := False\<rparr>"
  by (simp add: sendMessage_resume_def)

lemma sendMessage_resume_silent:
  "sendMessage_try r = Inr None \<Longrightarrow> sendMessage_resume r s = s\<lparr>loading := False\<rparr>"
  by (simp add: sendMessage_resume_def)

lemma sendMessage_resume_caught:
  "sendMessage_try r = Inl e \<Longrightarrow>
   sendMessage_resume r s =
     s\<lparr>console := console s @ [(''Error sending message:'', e)],
       messages := messages s @ [\<lparr>role = ''assistant'', content = JStr fallback\<rparr>],
       loading := False\<rparr>"
  by (simp add: sendMessage_resume_def)

lemma sendMessage_resume_loading: "\<not> loading (sendMessage_resume r s)"
  by (simp add: sendMessage_resume_def Let_def)

lemma sendMessage_try_reply:
  "ok res \<Longrightarrow> payload res = Some data \<Longrightarrow> get_prop data ''response'' = Inr v \<Longrightarrow>
   sendMessage_try (Settled res) =
     Inr (if truthy v then Some \<lparr>role = ''assistant'', content = v\<rparr> else None)"
  by (simp add: sendMessage_try_def json_def)

text \<open>The \<open>try\<close> block of \<open>sendMessage\<close> throws in these cases and no other.\<close>

lemma sendMessage_try_throws:
  "(\<exists>e. sendMessage_try r = Inl e) \<longleftrightarrow>
   (r = NetworkFailure \<or>
    (\<exists>res. r = Settled res \<and>
       (\<not> ok res \<or> (\<exists>e. json res = Inl e) \<or>
        (\<exists>data e. json res = Inr data \<and> get_prop data ''response'' = Inl e))))"
  by (cases r) (auto simp: sendMessage_try_def split: sum.splits)

text \<open>The \<open>try\<close> block of \<open>startSession\<close> throws in these cases and no other.\<close>

lemma startSession_try_throws:
  "(\<exists>e. startSession_try r = Inl e) \<longleftrightarrow>
   (r = NetworkFailure \<or>
    (\<exists>res. r = Settled res \<and>
       ((\<exists>e. json res = Inl e) \<or>
        (\<exists>data e. json res = Inr data \<and> get_prop data ''session_id'' = Inl e))))"
  by (cases r) (auto simp: startSession_try_def split: sum.splits)

lemma json_throws: "(\<exists>e. json res = Inl e) \<longleftrightarrow> payload res = None"
  by (auto simp: json_def split: option.splits)

lemma get_prop_throws: "(\<exists>e. get_prop d k = Inl e) \<longleftrightarrow> d = JNull \<or> d = JUndefined"
  by (cases d) auto

lemma startSession_resume_caught:
  "startSession_try r = Inl e \<Longrightarrow>
   startSession_resume r s =
     s\<lparr>console := console s @ [(''Error starting session:'', e)], loading := False\<rparr>"
  by (simp add: startSession_resume_def)

lemma startSession_resume_set:
  "startSession_try r = Inr sid \<Longrightarrow>
   startSession_resume r s = s\<lparr>sessionId := sid, messages := [], loading := False\<rparr>"
  by (simp add: startSession_resume_def)

lemma startSession_resume_loading: "\<not> loading (startSession_resume r s)"
  by (simp add: startSession_resume_def Let_def)

subsection \<open>A successful exchange\<close>

text \<open>
  C1. A send with a valid precondition (the input is not all white space, a session is
  held) appends one user-role message at once, while its call is still suspended; when the call
  resolves with a success status and a body whose \<open>response\<close> is a non-empty string
  \<open>X\<close>, the resumed handler appends one assistant-role message with content \<open>X\<close> to
  the transcript it finds (\<open>s'\<close>). With nothing in between the transcript has grown by
  exactly these two entries.
\<close>

theorem send_success_two_entries:
  assumes pre: "trim (input s) \<noteq> []" "truthy (sessionId s)"
    and res: "ok res" "payload res = Some data"
    and reply: "get_prop data ''response'' = Inr (JStr X)" "X \<noteq> []"
  shows "messages (sendMessage s) =
           messages s @ [\<lparr>role = ''user'', content = JStr (input s)\<rparr>]
       \<and> pending (sendMessage s) = pending s @ [ChatCall]
       \<and> messages (sendMessage_resume (Settled res) s') =
           messages s' @ [\<lparr>role = ''assistant'', content = JStr X\<rparr>]
       \<and> messages (sendMessage_resume (Settled res) (sendMessage s)) =
           messages s @ [\<lparr>role = ''user'', content = JStr (input s)\<rparr>,
                         \<lparr>role = ''assistant'', content = JStr X\<rparr>]
       \<and> length (messages (sendMessage_resume (Settled res) (sendMessage s))) =
           length (messages s) + 2"
proof -
  have body: "sendMessage_try (Settled res) =
      Inr (Some \<lparr>role = ''assistant'', content = JStr X\<rparr>)"
    using res reply by (simp add: sendMessage_try_reply)
  show ?thesis
    using pre by (simp add: sendMessage_valid sendMessage_resume_reply [OF body])
qed

theorem send_success_two_entries_witness:
  "trim (input (init\<lparr>sessionId := JStr ''s1'', input := ''deploy app''\<rparr>)) \<noteq> []
   \<and> truthy (sessionId (init\<lparr>sessionId := JStr ''s1'', input := ''deploy app''\<rparr>))
   \<and> ok (Response 200 (Some (JObj [(''response'', JStr ''Deploying...'')])))
   \<and> get_prop (JObj [(''response'', JStr ''Deploying...'')]) ''response'' =
        Inr (JStr ''Deploying...'')
   \<and> messages (sendMessage_resume
        (Settled (Response 200 (Some (JObj [(''response'', JStr ''Deploying...'')]))))
        (sendMessage (init\<lparr>sessionId := JStr ''s1'', input := ''deploy app''\<rparr>))) =
       [\<lparr>role = ''user'', content = JStr ''deploy app''\<rparr>,
        \<lparr>role = ''assistant'', content = JStr ''Deploying...''\<rparr>]"
  using send_success_two_entries
    [of "init\<lparr>sessionId := JStr ''s1'', input := ''deploy app''\<rparr>"
      "Response 200 (Some (JObj [(''response'', JStr ''Deploying...'')]))"
      "JObj [(''response'', JStr ''Deploying...'')]" "''Deploying...''" init]
  by (simp add: trim_def isWhiteSpace_def ok_def init_def)

subsection \<open>A failed exchange\<close>

text \<open>
  C2. A send with a valid precondition whose call fails: \<open>fetch\<close> is rejected, or the
  status is not a success status, or \<open>res.json()\<close> is rejected, or reading the body's
  \<open>response\<close> throws (these are all the ways the \<open>try\<close> block can throw, see
  \<open>sendMessage_try_throws\<close>). The resumed handler appends exactly one assistant-role
  message with the fixed text to the transcript it finds, and the user's message
  appended before stays where it was.
\<close>

theorem send_failure_fallback:
  assumes pre: "trim (input s) \<noteq> []" "truthy (sessionId s)"
    and fail: "r = NetworkFailure \<or>
      (\<exists>res. r = Settled res \<and>
         (\<not> ok res \<or> (\<exists>e. json res = Inl e) \<or>
          (\<exists>data e. json res = Inr data \<and> get_prop data ''response'' = Inl e)))"
  shows "messages (sendMessage_resume r s') =
           messages s' @ [\<lparr>role = ''assistant'',
             content = JStr ''Sorry, I encountered an error. Please try again.''\<rparr>]
       \<and> messages (sendMessage_resume r (sendMessage s)) =
           messages s @ [\<lparr>role = ''user'', content = JStr (input s)\<rparr>,
             \<lparr>role = ''assistant'',
              content = JStr ''Sorry, I encountered an error. Please try again.''\<rparr>]"
proof -
  from fail obtain e where thrown: "sendMessage_try r = Inl e"
    using sendMessage_try_throws [of r] by blast
  show ?thesis
    using pre
    by (simp add: sendMessage_valid sendMessage_resume_caught [OF thrown] fallback_def)
qed

theorem send_failure_fallback_witness:
  "trim (input (init\<lparr>sessionId := JStr ''s1'', input := ''fail me''\<rparr>)) \<noteq> []
   \<and> truthy (sessionId (init\<lparr>sessionId := JStr ''s1'', input := ''fail me''\<rparr>))
   \<and> \<not> ok (Response 500 None)
   \<and> messages (sendMessage_resume (Settled (Response 500 None))
        (sendMessage (init\<lparr>sessionId := JStr ''s1'', input := ''fail me''\<rparr>))) =
       [\<lparr>role = ''user'', content = JStr ''fail me''\<rparr>,
        \<lparr>role = ''assistant'',
         content = JStr ''Sorry, I encountered an error. Please try again.''\<rparr>]"
  using send_failure_fallback
    [of "init\<lparr>sessionId := JStr ''s1'', input := ''fail me''\<rparr>"
      "Settled (Response 500 None)" init]
  by (simp add: trim_def isWhiteSpace_def ok_def init_def)

subsection \<open>A reply without the response field\<close>

text \<open>
  C8. A send with a valid precondition whose call resolves with a success status and a
  body that is an object without a \<open>response\<close> property: the resumed handler appends
  nothing to the transcript it finds and writes nothing to the console (the \<open>catch\<close>
  is not entered, so no fallback message), and with nothing in between the transcript
  has grown by exactly one entry, the user's message.
\<close>

theorem send_reply_absent:
  assumes pre: "trim (input s) \<noteq> []" "truthy (sessionId s)"
    and res: "ok res" "payload res = Some (JObj kvs)" "map_of kvs ''response'' = None"
  shows "messages (sendMessage_resume (Settled res) s') = messages s'
       \<and> console (sendMessage_resume (Settled res) s') = console s'
       \<and> messages (sendMessage_resume (Settled res) (sendMessage s)) =
           messages s @ [\<lparr>role = ''user'', content = JStr (input s)\<rparr>]
       \<and> length (messages (sendMessage_resume (Settled res) (sendMessage s))) =
           length (messages s) + 1"
proof -
  have "get_prop (JObj kvs) ''response'' = Inr JUndefined"
    using res(3) by simp
  with res have body: "sendMessage_try (Settled res) = Inr None"
    by (simp add: sendMessage_try_reply)
  show ?thesis
    using pre by (simp add: sendMessage_valid sendMessage_resume_silent [OF body])
qed

theorem send_reply_absent_witness:
  "trim (input (init\<lparr>sessionId := JStr ''s1'', input := ''deploy app''\<rparr>)) \<noteq> []
   \<and> truthy (sessionId (init\<lparr>sessionId := JStr ''s1'', input := ''deploy app''\<rparr>))
   \<and> ok (Response 200 (Some (JObj [(''note'', JStr ''done'')])))
   \<and> map_of [(''note'', JStr ''done'')] ''response'' = None
   \<and> messages (sendMessage_resume
        (Settled (Response 200 (Some (JObj [(''note'', JStr ''done'')]))))
        (sendMessage (init\<lparr>sessionId := JStr ''s1'', input := ''deploy app''\<rparr>))) =
       [\<lparr>role = ''user'', content = JStr ''deploy app''\<rparr>]"
  using send_reply_absent
    [of "init\<lparr>sessionId := JStr ''s1'', input := ''deploy app''\<rparr>"
      "Response 200 (Some (JObj [(''note'', JStr ''done'')]))"
      "[(''note'', JStr ''done'')]" init]
  by (simp add: trim_def isWhiteSpace_def ok_def init_def)

subsection \<open>The precondition of a send\<close>

text \<open>
  C7. When the input is empty after trimming, or the session identifier is falsy (as
  the initial \<open>null\<close> is), \<open>sendMessage\<close> returns the state it was given: the session
  identifier, the transcript, the flag and the input field are the same, no request has
  been given to \<open>fetch\<close> and no call is suspended. The same holds for the two controls
  that call it.
\<close>

theorem send_precondition_noop:
  assumes "trim (input s) = [] \<or> \<not> truthy (sessionId s)"
  shows "sendMessage s = s \<and> fire KeyEnter s = s \<and> fire ClickSend s = s"
  using assms by (auto simp: sendMessage_def fire_def)

theorem send_precondition_noop_witness:
  "trim (input (init\<lparr>sessionId := JStr ''s1'', input := [CHR 0x20, CHR 0x09, CHR 0x20]\<rparr>)) = []
   \<and> sendMessage (init\<lparr>sessionId := JStr ''s1'', input := [CHR 0x20, CHR 0x09, CHR 0x20]\<rparr>) =
       init\<lparr>sessionId := JStr ''s1'', input := [CHR 0x20, CHR 0x09, CHR 0x20]\<rparr>
   \<and> \<not> truthy (sessionId (init\<lparr>input := ''deploy app''\<rparr>))
   \<and> sendMessage (init\<lparr>input := ''deploy app''\<rparr>) = init\<lparr>input := ''deploy app''\<rparr>"
  using
    send_precondition_noop [of "init\<lparr>sessionId := JStr ''s1'', input := [CHR 0x20, CHR 0x09, CHR 0x20]\<rparr>"]
    send_precondition_noop [of "init\<lparr>input := ''deploy app''\<rparr>"]
  by (simp add: trim_def isWhiteSpace_def init_def)

subsection \<open>Who writes the session identifier\<close>

text \<open>
  C10. Neither part of \<open>sendMessage\<close> changes the session identifier: not the
  synchronous part (whether the precondition holds or not), and not the resumed part,
  whatever the call settled with (a reply, no reply, or a failure). Of all that can
  happen to the component, only the settlement of a suspended \<open>startSession\<close> can
  change it.
\<close>

theorem sessionId_only_start:
  "sessionId (sendMessage s) = sessionId s
   \<and> sessionId (sendMessage_resume r s) = sessionId s
   \<and> (sessionId (fire ev s) \<noteq> sessionId s \<longrightarrow>
        (\<exists>i r'. ev = Settle i r' \<and> i < length (pending s) \<and> pending s ! i = StartCall))"
proof -
  have "sessionId (fire ev s) = sessionId s"
    if "\<not> (\<exists>i r'. ev = Settle i r' \<and> i < length (pending s) \<and> pending s ! i = StartCall)"
  proof (cases ev)
    case (Settle i r')
    show ?thesis
    proof (cases "i < length (pending s)")
      case True
      with that Settle have "pending s ! i = ChatCall"
        by (cases "pending s ! i") auto
      with True Settle show ?thesis
        by (simp add: fire_def sendMessage_resume_sessionId)
    next
      case False
      with Settle show ?thesis by (simp add: fire_def)
    qed
  qed (simp_all add: fire_def startSession_def sendMessage_sessionId)
  then show ?thesis
    by (auto simp: sendMessage_sessionId sendMessage_resume_sessionId)
qed

theorem sessionId_only_start_witness:
  "sessionId (sendMessage (init\<lparr>sessionId := JStr ''s1'', input := ''deploy app''\<rparr>)) = JStr ''s1''
   \<and> sessionId (sendMessage_resume NetworkFailure (init\<lparr>sessionId := JStr ''s1''\<rparr>)) = JStr ''s1''
   \<and> sessionId (fire (Settle 0 (Settled (Response 200 (Some (JObj [(''session_id'', JStr ''s2'')])))))
        (init\<lparr>sessionId := JStr ''s1'', loading := True, pending := [StartCall]\<rparr>)) = JStr ''s2''
   \<and> (\<exists>i r'. Settle 0 (Settled (Response 200 (Some (JObj [(''session_id'', JStr ''s2'')])))) = Settle i r'
        \<and> i < length (pending (init\<lparr>sessionId := JStr ''s1'', loading := True, pending := [StartCall]\<rparr>))
        \<and> pending (init\<lparr>sessionId := JStr ''s1'', loading := True, pending := [StartCall]\<rparr>) ! i = StartCall)"
  using
    sessionId_only_start [of "init\<lparr>sessionId := JStr ''s1'', input := ''deploy app''\<rparr>" NetworkFailure ClickStart]
    sessionId_only_start [of "init\<lparr>sessionId := JStr ''s1''\<rparr>" NetworkFailure ClickStart]
    sessionId_only_start [of "init\<lparr>sessionId := JStr ''s1'', loading := True, pending := [StartCall]\<rparr>"
      NetworkFailure "Settle 0 (Settled (Response 200 (Some (JObj [(''session_id'', JStr ''s2'')]))))"]
  by (simp add: init_def fire_def startSession_resume_def startSession_try_def json_def)

subsection \<open>Starting a session\<close>

text \<open>
  C6. When the call of \<open>startSession\<close> resolves with a success status and a body
  that parses, the resumed handler replaces the session identifier by the body's
  \<open>session_id\<close> and empties the transcript, whatever it held.
\<close>

theorem start_success_resets:
  assumes "ok res" "payload res = Some data" "get_prop data ''session_id'' = Inr sid"
  shows "sessionId (startSession_resume (Settled res) s) = sid
       \<and> messages (startSession_resume (Settled res) s) = []"
proof -
  have "startSession_try (Settled res) = Inr sid"
    using assms by (simp add: startSession_try_def json_def)
  then show ?thesis by (simp add: startSession_resume_set)
qed

theorem start_success_resets_witness:
  "ok (Response 200 (Some (JObj [(''session_id'', JStr ''s2'')])))
   \<and> get_prop (JObj [(''session_id'', JStr ''s2'')]) ''session_id'' = Inr (JStr ''s2'')
   \<and> sessionId (startSession_resume
        (Settled (Response 200 (Some (JObj [(''session_id'', JStr ''s2'')]))))
        (init\<lparr>sessionId := JStr ''s1'',
              messages := [\<lparr>role = ''user'', content = JStr ''deploy app''\<rparr>,
                           \<lparr>role = ''assistant'', content = JStr ''Deploying...''\<rparr>]\<rparr>)) =
       JStr ''s2''
   \<and> messages (startSession_resume
        (Settled (Response 200 (Some (JObj [(''session_id'', JStr ''s2'')]))))
        (init\<lparr>sessionId := JStr ''s1'',
              messages := [\<lparr>role = ''user'', content = JStr ''deploy app''\<rparr>,
                           \<lparr>role = ''assistant'', content = JStr ''Deploying...''\<rparr>]\<rparr>)) = []"
  using start_success_resets
    [of "Response 200 (Some (JObj [(''session_id'', JStr ''s2'')]))"
      "JObj [(''session_id'', JStr ''s2'')]" "JStr ''s2''"
      "init\<lparr>sessionId := JStr ''s1'',
            messages := [\<lparr>role = ''user'', content = JStr ''deploy app''\<rparr>,
                         \<lparr>role = ''assistant'', content = JStr ''Deploying...''\<rparr>]\<rparr>"]
  by (simp add: ok_def)

text \<open>
  C4. When the call of \<open>startSession\<close> fails with a transport error (\<open>fetch\<close> is
  rejected) or a decoding error (\<open>res.json()\<close> is rejected, or the body is \<open>null\<close>
  so that reading \<open>session_id\<close> throws), the resumed handler leaves the session
  identifier and the transcript as they were, writes one line to the console, and
  changes nothing else but the flag: no message is shown to the user.
\<close>

theorem start_failure_silent:
  assumes "r = NetworkFailure \<or>
      (\<exists>res. r = Settled res \<and>
         ((\<exists>e. json res = Inl e) \<or>
          (\<exists>data e. json res = Inr data \<and> get_prop data ''session_id'' = Inl e)))"
  shows "sessionId (startSession_resume r s) = sessionId s
       \<and> messages (startSession_resume r s) = messages s
       \<and> (\<exists>e. startSession_resume r s =
             s\<lparr>console := console s @ [(''Error starting session:'', e)], loading := False\<rparr>)"
proof -
  from assms obtain e where thrown: "startSession_try r = Inl e"
    using startSession_try_throws [of r] by blast
  have "startSession_resume r s =
      s\<lparr>console := console s @ [(''Error starting session:'', e)], loading := False\<rparr>"
    by (rule startSession_resume_caught [OF thrown])
  then show ?thesis by auto
qed

theorem start_failure_silent_witness:
  "json (Response 200 None) = Inl SyntaxError
   \<and> startSession_resume NetworkFailure
       (init\<lparr>sessionId := JStr ''s1'', loading := True,
             messages := [\<lparr>role = ''user'', content = JStr ''deploy app''\<rparr>]\<rparr>) =
     init\<lparr>sessionId := JStr ''s1'',
          messages := [\<lparr>role = ''user'', content = JStr ''deploy app''\<rparr>],
          console := [(''Error starting session:'', NetworkError)]\<rparr>
   \<and> startSession_resume (Settled (Response 200 None))
       (init\<lparr>sessionId := JStr ''s1'', loading := True,
             messages := [\<lparr>role = ''user'', content = JStr ''deploy app''\<rparr>]\<rparr>) =
     init\<lparr>sessionId := JStr ''s1'',
          messages := [\<lparr>role = ''user'', content = JStr ''deploy app''\<rparr>],
          console := [(''Error starting session:'', SyntaxError)]\<rparr>"
  using
    start_failure_silent [of NetworkFailure
      "init\<lparr>sessionId := JStr ''s1'', loading := True,
            messages := [\<lparr>role = ''user'', content = JStr ''deploy app''\<rparr>]\<rparr>"]
    start_failure_silent [of "Settled (Response 200 None)"
      "init\<lparr>sessionId := JStr ''s1'', loading := True,
            messages := [\<lparr>role = ''user'', content = JStr ''deploy app''\<rparr>]\<rparr>"]
  by (simp add: json_def init_def startSession_resume_def startSession_try_def)

subsection \<open>A status that is not a success status\<close>

text \<open>
  C3. \<open>sendMessage\<close> tests \<open>res.ok\<close> and throws when it is false; \<open>startSession\<close>
  does not read it. A session \<open>s1\<close> with two messages is held when a start-session
  call resolves with status 500 and the JSON body \<open>{"error": "Internal Server Error"}\<close>:
  the resumed \<open>startSession\<close> does not enter its \<open>catch\<close>; it sets the session
  identifier to \<open>undefined\<close> and empties the transcript, and logs nothing. The same
  response given to the resumed \<open>sendMessage\<close> appends the fallback message.
\<close>

theorem start_status_500_not_failure:
  "\<not> ok (Response 500 (Some (JObj [(''error'', JStr ''Internal Server Error'')])))
   \<and> startSession_resume
       (Settled (Response 500 (Some (JObj [(''error'', JStr ''Internal Server Error'')]))))
       (init\<lparr>sessionId := JStr ''s1'', loading := True,
             messages := [\<lparr>role = ''user'', content = JStr ''deploy app''\<rparr>,
                          \<lparr>role = ''assistant'', content = JStr ''Deploying...''\<rparr>]\<rparr>) =
     init\<lparr>sessionId := JUndefined, messages := [], console := []\<rparr>
   \<and> messages (sendMessage_resume
       (Settled (Response 500 (Some (JObj [(''error'', JStr ''Internal Server Error'')]))))
       (init\<lparr>sessionId := JStr ''s1'', loading := True,
             messages := [\<lparr>role = ''user'', content = JStr ''fail me''\<rparr>]\<rparr>)) =
     [\<lparr>role = ''user'', content = JStr ''fail me''\<rparr>,
      \<lparr>role = ''assistant'',
       content = JStr ''Sorry, I encountered an error. Please try again.''\<rparr>]"
  by (simp add: ok_def init_def startSession_resume_def startSession_try_def json_def
      sendMessage_resume_def sendMessage_try_def fallback_def)

subsection \<open>The text that is sent\<close>

text \<open>
  C5, as the code has it. \<open>trim\<close> is applied in the test of the precondition only.
  For a send with a valid precondition, the content of the user-role message appended to
  the transcript and the \<open>message\<close> of the request body are both the input text as it
  stands in the field, untrimmed.
\<close>

theorem send_text_untrimmed:
  assumes "trim (input s) \<noteq> []" "truthy (sessionId s)"
  shows "messages (sendMessage s) =
           messages s @ [\<lparr>role = ''user'', content = JStr (input s)\<rparr>]
       \<and> fetched (sendMessage s) =
           fetched s @
             [\<lparr>url = ''http://localhost:5000/api/chat'', http_method = ''POST'',
               headers = [(''Content-Type'', ''application/json'')],
               credentials = ''include'',
               body = Some (JObj [(''session_id'', sessionId s),
                                  (''message'', JStr (input s))])\<rparr>]"
  using assms by (simp add: sendMessage_valid API_URL_def)

theorem send_text_untrimmed_witness:
  "trim (input (init\<lparr>sessionId := JStr ''s1'', input := ''deploy app ''\<rparr>)) \<noteq> []
   \<and> truthy (sessionId (init\<lparr>sessionId := JStr ''s1'', input := ''deploy app ''\<rparr>))
   \<and> messages (sendMessage (init\<lparr>sessionId := JStr ''s1'', input := ''deploy app ''\<rparr>)) =
       [\<lparr>role = ''user'', content = JStr ''deploy app ''\<rparr>]
   \<and> fetched (sendMessage (init\<lparr>sessionId := JStr ''s1'', input := ''deploy app ''\<rparr>)) =
       [\<lparr>url = ''http://localhost:5000/api/chat'', http_method = ''POST'',
         headers = [(''Content-Type'', ''application/json'')],
         credentials = ''include'',
         body = Some (JObj [(''session_id'', JStr ''s1''),
                            (''message'', JStr ''deploy app '')])\<rparr>]"
  using send_text_untrimmed [of "init\<lparr>sessionId := JStr ''s1'', input := ''deploy app ''\<rparr>"]
  by (simp add: trim_def isWhiteSpace_def init_def)

text \<open>
  C5 as stated fails: with \<open>s1\<close> held and the input \<open>deploy app\<close> followed by a
  space, the precondition holds and the trimmed text is \<open>deploy app\<close>, but the message
  appended and the message of the request keep the space.
\<close>

theorem send_text_trimmed_counterexample:
  "trim (input (init\<lparr>sessionId := JStr ''s1'', input := ''deploy app ''\<rparr>)) = ''deploy app''
   \<and> truthy (sessionId (init\<lparr>sessionId := JStr ''s1'', input := ''deploy app ''\<rparr>))
   \<and> messages (sendMessage (init\<lparr>sessionId := JStr ''s1'', input := ''deploy app ''\<rparr>)) \<noteq>
       messages (init\<lparr>sessionId := JStr ''s1'', input := ''deploy app ''\<rparr>) @
         [\<lparr>role = ''user'',
           content = JStr (trim (input (init\<lparr>sessionId := JStr ''s1'', input := ''deploy app ''\<rparr>)))\<rparr>]
   \<and> body (last (fetched (sendMessage (init\<lparr>sessionId := JStr ''s1'', input := ''deploy app ''\<rparr>)))) \<noteq>
       Some (JObj [(''session_id'', JStr ''s1''),
         (''message'', JStr (trim (input (init\<lparr>sessionId := JStr ''s1'', input := ''deploy app ''\<rparr>))))])"
  by (simp add: trim_def isWhiteSpace_def init_def sendMessage_def Let_def)

subsection \<open>The in-flight flag\<close>

lemma run_snoc: "run (evs @ [ev]) s = fire ev (run evs s)"
  by (simp add: run_def)

text \<open>
  What the controls keep true: no call is suspended and the flag is false, or one call
  is suspended and the flag is true; and while the call of a send is suspended the input
  field is empty.
\<close>

lemma fire_one_call:
  assumes "(pending s = [] \<and> \<not> loading s)
         \<or> (pending s = [StartCall] \<and> loading s)
         \<or> (pending s = [ChatCall] \<and> loading s \<and> input s = [])"
  shows "(pending (fire ev s) = [] \<and> \<not> loading (fire ev s))
       \<or> (pending (fire ev s) = [StartCall] \<and> loading (fire ev s))
       \<or> (pending (fire ev s) = [ChatCall] \<and> loading (fire ev s) \<and> input (fire ev s) = [])"
proof (cases ev)
  case ClickStart
  with assms show ?thesis by (auto simp: fire_def startSession_def)
next
  case (Change v)
  with assms show ?thesis by (auto simp: fire_def)
next
  case KeyEnter
  with assms show ?thesis by (auto simp: fire_def sendMessage_def Let_def)
next
  case ClickSend
  with assms show ?thesis by (auto simp: fire_def sendMessage_def Let_def)
next
  case (Settle i r)
  with assms show ?thesis
    by (auto simp: fire_def startSession_resume_def sendMessage_resume_def Let_def
        split: sum.splits option.splits)
qed

lemma run_one_call:
  "(pending (run evs init) = [] \<and> \<not> loading (run evs init))
 \<or> (pending (run evs init) = [StartCall] \<and> loading (run evs init))
 \<or> (pending (run evs init) = [ChatCall] \<and> loading (run evs init)
      \<and> input (run evs init) = [])"
proof (induction evs rule: rev_induct)
  case Nil
  show ?case by (simp add: run_def init_def)
next
  case (snoc ev evs)
  then show ?case unfolding run_snoc by (rule fire_one_call)
qed

text \<open>
  C9, as the code has it. A send with a valid precondition sets the flag, and so does
  \<open>startSession\<close>; the resumed part of either clears it, whatever the call settled
  with. In every state reached from the first render through the controls, the flag is
  true exactly while a call (of a send or of a start) is suspended, at most one call is
  suspended, the settlement of a suspended call clears the flag, and while the call of a
  send is suspended a second \<open>sendMessage\<close> fails its precondition (the input field was
  emptied and is disabled) and changes nothing.
\<close>

theorem flag_while_call_outstanding:
  "(trim (input s) \<noteq> [] \<and> truthy (sessionId s) \<longrightarrow> loading (sendMessage s))
   \<and> loading (startSession s)
   \<and> \<not> loading (sendMessage_resume r s)
   \<and> \<not> loading (startSession_resume r s)
   \<and> (loading (run evs init) \<longleftrightarrow> pending (run evs init) \<noteq> [])
   \<and> length (pending (run evs init)) \<le> 1
   \<and> (i < length (pending (run evs init)) \<longrightarrow>
        \<not> loading (fire (Settle i r) (run evs init)))
   \<and> (ChatCall \<in> set (pending (run evs init)) \<longrightarrow>
        trim (input (run evs init)) = [] \<and> sendMessage (run evs init) = run evs init)"
proof -
  let ?s = "run evs init"
  have inv: "(pending ?s = [] \<and> \<not> loading ?s) \<or> (pending ?s = [StartCall] \<and> loading ?s)
    \<or> (pending ?s = [ChatCall] \<and> loading ?s \<and> input ?s = [])"
    by (rule run_one_call)
  have a: "loading ?s \<longleftrightarrow> pending ?s \<noteq> []" using inv by auto
  have b: "length (pending ?s) \<le> 1" using inv by auto
  have c: "\<not> loading (fire (Settle i r) ?s)" if "i < length (pending ?s)"
    using that by (cases "pending ?s ! i")
      (simp_all add: fire_def startSession_resume_loading sendMessage_resume_loading)
  have d: "trim (input ?s) = [] \<and> sendMessage ?s = ?s" if "ChatCall \<in> set (pending ?s)"
  proof -
    from that inv have "input ?s = []" by auto
    then show ?thesis by (simp add: sendMessage_def trim_def)
  qed
  show ?thesis
    using a b c d
    by (simp add: sendMessage_valid startSession_def startSession_resume_loading
        sendMessage_resume_loading)
qed

theorem flag_while_call_outstanding_witness:
  "trim (input (init\<lparr>sessionId := JStr ''s1'', input := ''deploy app''\<rparr>)) \<noteq> []
   \<and> truthy (sessionId (init\<lparr>sessionId := JStr ''s1'', input := ''deploy app''\<rparr>))
   \<and> loading (sendMessage (init\<lparr>sessionId := JStr ''s1'', input := ''deploy app''\<rparr>))
   \<and> pending (run [ClickStart,
        Settle 0 (Settled (Response 200 (Some (JObj [(''session_id'', JStr ''s1'')])))),
        Change ''deploy app'', KeyEnter] init) = [ChatCall]
   \<and> loading (run [ClickStart,
        Settle 0 (Settled (Response 200 (Some (JObj [(''session_id'', JStr ''s1'')])))),
        Change ''deploy app'', KeyEnter] init)
   \<and> \<not> loading (fire (Settle 0 NetworkFailure) (run [ClickStart,
        Settle 0 (Settled (Response 200 (Some (JObj [(''session_id'', JStr ''s1'')])))),
        Change ''deploy app'', KeyEnter] init))
   \<and> sendMessage (run [ClickStart,
        Settle 0 (Settled (Response 200 (Some (JObj [(''session_id'', JStr ''s1'')])))),
        Change ''deploy app'', KeyEnter] init) =
      run [ClickStart,
        Settle 0 (Settled (Response 200 (Some (JObj [(''session_id'', JStr ''s1'')])))),
        Change ''deploy app'', KeyEnter] init"
  using flag_while_call_outstanding
    [of "init\<lparr>sessionId := JStr ''s1'', input := ''deploy app''\<rparr>" NetworkFailure
      "[ClickStart,
        Settle 0 (Settled (Response 200 (Some (JObj [(''session_id'', JStr ''s1'')])))),
        Change ''deploy app'', KeyEnter]" 0]
  by (simp add: run_def fire_def init_def startSession_def startSession_resume_def
      startSession_try_def json_def sendMessage_def Let_def trim_def isWhiteSpace_def)

text \<open>
  C9 as stated fails: after a click on the start button in the first render, the flag
  is true although no send has been invoked: the transcript is empty, the only request
  made is the session's, and the only suspended call is that of \<open>startSession\<close>.
\<close>

theorem flag_only_during_send_counterexample:
  "loading (run [ClickStart] init)
   \<and> pending (run [ClickStart] init) = [StartCall]
   \<and> ChatCall \<notin> set (pending (run [ClickStart] init))
   \<and> messages (run [ClickStart] init) = []
   \<and> fetched (run [ClickStart] init) =
       [\<lparr>url = ''http://localhost:5000/api/start_session'', http_method = ''POST'',
         headers = [], credentials = ''include'', body = None\<rparr>]"
  by (simp add: run_def fire_def init_def startSession_def API_URL_def)

end
